theory Spec2Isabelle
  imports Main "HOL-Library.Word"
begin

section \<open>Private types of drivers/video/video.c\<close>

text \<open>
  The three stream states and the five transition causes are the enums
  \<open>video_state_e\<close> and \<open>video_state_transition_cause\<close> of the source.
  The \<open>default:\<close> arm of the source's switch over the cause is not reachable for
  a value of the enum and has no counterpart for a datatype.
\<close>

datatype video_state_e =
  VIDEO_STATE_STREAMOFF
| VIDEO_STATE_STREAMON
| VIDEO_STATE_DMA

datatype video_state_transition_cause =
  CAUSE_VIDEO_STOP
| CAUSE_VIDEO_START
| CAUSE_VIDEO_DQBUF
| CAUSE_STILL_STOP
| CAUSE_STILL_START

datatype video_waitend_cause_e =
  VIDEO_WAITEND_CAUSE_DMADONE
| VIDEO_WAITEND_CAUSE_DQCANCEL
| VIDEO_WAITEND_CAUSE_STILLSTOP

text \<open>
  Modelled from the spec: the buffer type. The video header that declares
  \<open>enum v4l2_buf_type\<close> is not among the sources; the type is kept as the 32-bit
  value the operations receive, and the stream kinds video and still of the
  specification are the header's enumerators 1 and 20.
\<close>

type_synonym v4l2_buf_type = "32 word"

definition V4L2_BUF_TYPE_VIDEO_CAPTURE :: v4l2_buf_type where
  "V4L2_BUF_TYPE_VIDEO_CAPTURE = 1"

definition V4L2_BUF_TYPE_STILL_CAPTURE :: v4l2_buf_type where
  "V4L2_BUF_TYPE_STILL_CAPTURE = 20"

datatype v4l2_buf_mode =
  V4L2_BUF_MODE_RING
| V4L2_BUF_MODE_FIFO

record v4l2_buffer =
  buf_index :: "32 word"
  btype :: v4l2_buf_type
  bytesused :: "32 word"
  buf_flags :: "32 word"
  userptr :: "32 word"
  buf_length :: "32 word"

text \<open>
  Modelled from the spec: the result codes. The headers that define them are not
  among the sources; the error kinds are those of section 7 of the specification
  (NOT_PERMITTED is \<open>-EPERM\<close>, INVALID_ARG is \<open>-EINVAL\<close>, OUT_OF_MEMORY is
  \<open>-ENOMEM\<close>, CANCELED is \<open>-ECANCELED\<close>, BUSY is \<open>-EBUSY\<close>), with the
  platform's numbers; \<open>OK\<close> and \<open>ERROR\<close> are the kernel's 0 and -1. The
  theorems below use only that these values differ from one another.
\<close>

definition OK :: int where "OK = 0"
definition ERROR :: int where "ERROR = - 1"
definition EPERM :: int where "EPERM = 1"
definition ENOMEM :: int where "ENOMEM = 12"
definition EBUSY :: int where "EBUSY = 16"
definition EINVAL :: int where "EINVAL = 22"
definition ECANCELED :: int where "ECANCELED = 125"

definition VIDEO_REMAINING_CAPNUM_INFINITY :: "32 word" where
  "VIDEO_REMAINING_CAPNUM_INFINITY = - 1"

definition V4L2_BUF_FLAG_ERROR :: "32 word" where
  "V4L2_BUF_FLAG_ERROR = 0x0001"

text \<open>What C leaves undefined and the hardware traps is a value of its own.\<close>

datatype fault = NULL_DEREFERENCE | DIVIDE_BY_ZERO

section \<open>The frame buffer queue\<close>

text \<open>
  Modelled from the spec: video_framebuff.c and video_framebuff.h are not part of
  the sources at hand, so the queue follows section 4.1 of the specification. One
  queue holds \<open>container_size\<close> slots; a slot is free, queued, the one under DMA
  (\<open>vbuf_dma\<close>, the field video.c itself reads), or done. Free slots carry no
  data and are counted; the other sub-lists hold the buffer descriptors in order.
\<close>

record video_framebuff =
  mode :: v4l2_buf_mode
  container_size :: nat
  vbuf_free :: nat
  vbuf_queued :: "v4l2_buffer list"
  vbuf_dma :: "v4l2_buffer option"
  vbuf_done :: "v4l2_buffer list"

text \<open>
  Modelled from the spec: the queue after \<open>video_framebuff_init\<close> on zeroed
  memory: no slots at all, and the mode whose enumerator is zero, taken to be ring.
\<close>

definition video_framebuff_init :: video_framebuff where
  "video_framebuff_init =
     \<lparr>mode = V4L2_BUF_MODE_RING, container_size = 0, vbuf_free = 0,
      vbuf_queued = [], vbuf_dma = None, vbuf_done = []\<rparr>"

text \<open>Modelled from the spec: \<open>set_mode(mode)\<close> sets ring or fifo and touches no slot.\<close>

definition video_framebuff_change_mode ::
  "video_framebuff \<Rightarrow> v4l2_buf_mode \<Rightarrow> video_framebuff" where
  "video_framebuff_change_mode fbuf m = fbuf\<lparr>mode := m\<rparr>"

text \<open>
  Modelled from the spec: \<open>realloc(n)\<close> resizes to \<open>n\<close> slots, fails with BUSY
  while a slot is under DMA, rebuilds the free list and drops the queued and done
  slots beyond \<open>n\<close>.
\<close>

definition video_framebuff_realloc_container ::
  "video_framebuff \<Rightarrow> nat \<Rightarrow> int \<times> video_framebuff" where
  "video_framebuff_realloc_container fbuf n =
     (case vbuf_dma fbuf of
        Some c \<Rightarrow> (- EBUSY, fbuf)
      | None \<Rightarrow>
          (let q = take n (vbuf_queued fbuf);
               d = take (n - length q) (vbuf_done fbuf)
           in (OK, fbuf\<lparr>container_size := n,
                         vbuf_free := n - length q - length d,
                         vbuf_queued := q,
                         vbuf_done := d\<rparr>)))"

text \<open>
  Modelled from the spec: \<open>pop_for_dma()\<close> moves the head queued slot to the DMA
  position and returns it, or returns null when nothing is queued. The caller's
  obligation that no slot is under DMA at that moment is not checked.
\<close>

definition video_framebuff_get_dma_container ::
  "video_framebuff \<Rightarrow> v4l2_buffer option \<times> video_framebuff" where
  "video_framebuff_get_dma_container fbuf =
     (case vbuf_queued fbuf of
        [] \<Rightarrow> (None, fbuf)
      | c # cs \<Rightarrow> (Some c, fbuf\<lparr>vbuf_queued := cs, vbuf_dma := Some c\<rparr>))"

text \<open>
  Modelled from the spec: \<open>dma_done\<close> moves the slot under DMA to the tail of the
  done list; in ring mode a done list that is at capacity gives up its head first,
  whose slot becomes free.
\<close>

definition video_framebuff_dma_done :: "video_framebuff \<Rightarrow> video_framebuff" where
  "video_framebuff_dma_done fbuf =
     (case vbuf_dma fbuf of
        None \<Rightarrow> fbuf
      | Some c \<Rightarrow>
          (if mode fbuf = V4L2_BUF_MODE_RING \<and> container_size fbuf \<le> length (vbuf_done fbuf)
           then fbuf\<lparr>vbuf_dma := None,
                     vbuf_free := vbuf_free fbuf + 1,
                     vbuf_done := tl (vbuf_done fbuf) @ [c]\<rparr>
           else fbuf\<lparr>vbuf_dma := None, vbuf_done := vbuf_done fbuf @ [c]\<rparr>))"

text \<open>
  Modelled from the spec: the notify path pops the just-completed slot, the tail of
  the done list, for the waiter; null when the done list is empty.
\<close>

definition video_framebuff_pop_curr_container ::
  "video_framebuff \<Rightarrow> v4l2_buffer option \<times> video_framebuff" where
  "video_framebuff_pop_curr_container fbuf =
     (if vbuf_done fbuf = [] then (None, fbuf)
      else (Some (last (vbuf_done fbuf)), fbuf\<lparr>vbuf_done := butlast (vbuf_done fbuf)\<rparr>))"

text \<open>
  Modelled from the spec: \<open>pop_done()\<close> removes and returns the head done slot, or
  returns null when no slot is done.
\<close>

definition video_framebuff_dq_valid_container ::
  "video_framebuff \<Rightarrow> v4l2_buffer option \<times> video_framebuff" where
  "video_framebuff_dq_valid_container fbuf =
     (case vbuf_done fbuf of
        [] \<Rightarrow> (None, fbuf)
      | c # cs \<Rightarrow> (Some c, fbuf\<lparr>vbuf_done := cs\<rparr>))"

text \<open>
  Modelled from the spec: \<open>release(slot)\<close> returns a slot that is in no sub-list
  any more to the free ones.
\<close>

definition video_framebuff_free_container :: "video_framebuff \<Rightarrow> video_framebuff" where
  "video_framebuff_free_container fbuf = fbuf\<lparr>vbuf_free := vbuf_free fbuf + 1\<rparr>"

section \<open>Stream and manager state\<close>

text \<open>
  \<open>dqbuf_wait_flg\<close> is the count of the semaphore a dequeue blocks on. A wait
  takes one from the count and the caller is blocked while the count it leaves is
  negative; a post adds one. A negative count therefore means a waiter, which is what
  \<open>is_sem_waited\<close> tests. The mutexes \<open>lock_state\<close> and \<open>lock_open_num\<close>
  only serialise callers and have no field here.
\<close>

record video_wait_dma_t =
  dqbuf_wait_flg :: int
  done_container :: "v4l2_buffer option"
  waitend_cause :: video_waitend_cause_e

record video_type_inf_t =
  state :: video_state_e
  remaining_capnum :: "32 word"
  wait_dma :: video_wait_dma_t
  bufinf :: video_framebuff

text \<open>
  The operation tables \<open>g_video_sensctrl_ops\<close> and \<open>g_video_imgdata_ops\<close> are
  external. What the manager does to them is kept as the buffer type last given to
  \<open>set_buftype\<close> (which \<open>get_buftype\<close> returns) and the list of calls made, the
  oldest first.
\<close>

datatype hal_call =
  SENS_SET_BUFTYPE v4l2_buf_type
| SENS_GET_FORMAT v4l2_buf_type
| SENS_CLOSE
| IMG_START_DMA v4l2_buf_type "32 word" "32 word"
| IMG_SET_DMABUF "32 word" "32 word"
| IMG_CANCEL_DMA
| IMG_CLOSE

record hal_t =
  sens_buftype :: v4l2_buf_type
  hal_calls :: "hal_call list"

record video_mng_t =
  open_num :: "8 word"
  video_inf :: video_type_inf_t
  still_inf :: video_type_inf_t
  hal :: hal_t

definition hal_do :: "hal_call \<Rightarrow> video_mng_t \<Rightarrow> video_mng_t" where
  "hal_do c vmng = vmng\<lparr>hal := (hal vmng)\<lparr>hal_calls := hal_calls (hal vmng) @ [c]\<rparr>\<rparr>"

definition set_buftype :: "v4l2_buf_type \<Rightarrow> video_mng_t \<Rightarrow> video_mng_t" where
  "set_buftype t vmng =
     hal_do (SENS_SET_BUFTYPE t) (vmng\<lparr>hal := (hal vmng)\<lparr>sens_buftype := t\<rparr>\<rparr>)"

definition start_dma_for :: "v4l2_buf_type \<Rightarrow> v4l2_buffer \<Rightarrow> video_mng_t \<Rightarrow> video_mng_t" where
  "start_dma_for t c vmng =
     hal_do (IMG_START_DMA t (userptr c) (buf_length c))
       (hal_do (SENS_GET_FORMAT t) (set_buftype t vmng))"

section \<open>Common functions\<close>

text \<open>
  \<open>get_video_type_inf\<close> takes its \<open>type\<close> parameter as \<open>uint8_t\<close>: every
  caller's 32-bit value is cut to its low byte on the way in (written \<open>ucast\<close> at
  each call below), and the switch compares that byte, promoted again, with the two
  enumerators. Any other byte reaches the default arm.
\<close>

definition get_video_type_inf :: "video_mng_t \<Rightarrow> 8 word \<Rightarrow> video_type_inf_t option" where
  "get_video_type_inf vmng type =
     (if (ucast type :: 32 word) = V4L2_BUF_TYPE_VIDEO_CAPTURE then Some (video_inf vmng)
      else if (ucast type :: 32 word) = V4L2_BUF_TYPE_STILL_CAPTURE then Some (still_inf vmng)
      else None)"

text \<open>Writing through the pointer \<open>get_video_type_inf\<close> returned.\<close>

definition put_video_type_inf ::
  "video_mng_t \<Rightarrow> 8 word \<Rightarrow> video_type_inf_t \<Rightarrow> video_mng_t" where
  "put_video_type_inf vmng type ti =
     (if (ucast type :: 32 word) = V4L2_BUF_TYPE_VIDEO_CAPTURE then vmng\<lparr>video_inf := ti\<rparr>
      else if (ucast type :: 32 word) = V4L2_BUF_TYPE_STILL_CAPTURE then vmng\<lparr>still_inf := ti\<rparr>
      else vmng)"

definition is_taking_still_picture :: "video_mng_t \<Rightarrow> bool" where
  "is_taking_still_picture vmng =
     (state (still_inf vmng) = VIDEO_STATE_STREAMON \<or>
      state (still_inf vmng) = VIDEO_STATE_DMA)"

fun estimate_next_video_state ::
  "video_mng_t \<Rightarrow> video_state_transition_cause \<Rightarrow> video_state_e" where
  "estimate_next_video_state vmng CAUSE_VIDEO_STOP = VIDEO_STATE_STREAMOFF"
| "estimate_next_video_state vmng CAUSE_VIDEO_START =
     (if is_taking_still_picture vmng then VIDEO_STATE_STREAMON else VIDEO_STATE_DMA)"
| "estimate_next_video_state vmng CAUSE_STILL_STOP =
     (if state (video_inf vmng) = VIDEO_STATE_STREAMON then VIDEO_STATE_DMA
      else state (video_inf vmng))"
| "estimate_next_video_state vmng CAUSE_STILL_START =
     (if state (video_inf vmng) = VIDEO_STATE_DMA then VIDEO_STATE_STREAMON
      else state (video_inf vmng))"
| "estimate_next_video_state vmng CAUSE_VIDEO_DQBUF =
     (if state (video_inf vmng) = VIDEO_STATE_STREAMON \<and> \<not> is_taking_still_picture vmng
      then VIDEO_STATE_DMA
      else state (video_inf vmng))"

text \<open>
  The Arbiter's table as the specification words it, over the two states and the
  cause alone; \<open>estimate_next_video_state\<close> is compared with it below.
\<close>

definition spec_still_capturing :: "video_state_e \<Rightarrow> bool" where
  "spec_still_capturing cur_still =
     (cur_still = VIDEO_STATE_STREAMON \<or> cur_still = VIDEO_STATE_DMA)"

fun spec_next_video_state ::
  "video_state_e \<Rightarrow> video_state_e \<Rightarrow> video_state_transition_cause \<Rightarrow> video_state_e" where
  "spec_next_video_state cur_video cur_still CAUSE_VIDEO_STOP = VIDEO_STATE_STREAMOFF"
| "spec_next_video_state cur_video cur_still CAUSE_VIDEO_START =
     (if spec_still_capturing cur_still then VIDEO_STATE_STREAMON else VIDEO_STATE_DMA)"
| "spec_next_video_state cur_video cur_still CAUSE_STILL_START =
     (case cur_video of VIDEO_STATE_DMA \<Rightarrow> VIDEO_STATE_STREAMON | _ \<Rightarrow> cur_video)"
| "spec_next_video_state cur_video cur_still CAUSE_STILL_STOP =
     (case cur_video of VIDEO_STATE_STREAMON \<Rightarrow> VIDEO_STATE_DMA | _ \<Rightarrow> cur_video)"
| "spec_next_video_state cur_video cur_still CAUSE_VIDEO_DQBUF =
     (case cur_video of
        VIDEO_STATE_STREAMON \<Rightarrow>
          (if spec_still_capturing cur_still then cur_video else VIDEO_STATE_DMA)
      | _ \<Rightarrow> cur_video)"

section \<open>State changes of the video stream\<close>

definition set_video_state :: "video_state_e \<Rightarrow> video_mng_t \<Rightarrow> video_mng_t" where
  "set_video_state s vmng = vmng\<lparr>video_inf := (video_inf vmng)\<lparr>state := s\<rparr>\<rparr>"

definition set_still_state :: "video_state_e \<Rightarrow> video_mng_t \<Rightarrow> video_mng_t" where
  "set_still_state s vmng = vmng\<lparr>still_inf := (still_inf vmng)\<lparr>state := s\<rparr>\<rparr>"

definition change_video_state :: "video_mng_t \<Rightarrow> video_state_e \<Rightarrow> video_mng_t" where
  "change_video_state vmng next_state =
     (let current_state = state (video_inf vmng) in
      if current_state \<noteq> VIDEO_STATE_DMA \<and> next_state = VIDEO_STATE_DMA then
        (case video_framebuff_get_dma_container (bufinf (video_inf vmng)) of
           (Some dma_container, fbuf) \<Rightarrow>
             set_video_state next_state
               (start_dma_for V4L2_BUF_TYPE_VIDEO_CAPTURE dma_container
                  (vmng\<lparr>video_inf := (video_inf vmng)\<lparr>bufinf := fbuf\<rparr>\<rparr>))
         | (None, fbuf) \<Rightarrow>
             set_video_state VIDEO_STATE_STREAMON
               (vmng\<lparr>video_inf := (video_inf vmng)\<lparr>bufinf := fbuf\<rparr>\<rparr>))
      else if current_state = VIDEO_STATE_DMA \<and> next_state \<noteq> VIDEO_STATE_DMA then
        set_video_state next_state (hal_do IMG_CANCEL_DMA vmng)
      else set_video_state next_state vmng)"

section \<open>Open and close\<close>

text \<open>
  \<open>cleanup_streamresources\<close> zeroes the whole stream structure and then stores the
  infinite sentinel: the state is STREAMOFF (the enum's 0), the queue is the empty one.
\<close>

definition cleanup_streamresources :: "video_type_inf_t \<Rightarrow> video_type_inf_t" where
  "cleanup_streamresources type_inf =
     \<lparr>state = VIDEO_STATE_STREAMOFF,
      remaining_capnum = VIDEO_REMAINING_CAPNUM_INFINITY,
      wait_dma = \<lparr>dqbuf_wait_flg = 0, done_container = None,
                  waitend_cause = VIDEO_WAITEND_CAUSE_DMADONE\<rparr>,
      bufinf = video_framebuff_init\<rparr>"

definition cleanup_resources :: "video_mng_t \<Rightarrow> video_mng_t" where
  "cleanup_resources vmng =
     (let vmng1 =
            (if state (video_inf vmng) = VIDEO_STATE_DMA \<or>
                state (still_inf vmng) = VIDEO_STATE_DMA
             then hal_do IMG_CANCEL_DMA vmng else vmng)
      in vmng1\<lparr>video_inf := cleanup_streamresources (video_inf vmng1),
                still_inf := cleanup_streamresources (still_inf vmng1)\<rparr>)"

definition video_close :: "video_mng_t \<Rightarrow> int \<times> video_mng_t" where
  "video_close priv =
     (let ret = ERROR in
      if open_num priv = 0 then (OK, priv)
      else
        (let priv1 = priv\<lparr>open_num := open_num priv - 1\<rparr>;
             priv2 = (if open_num priv1 = 0
                      then hal_do IMG_CLOSE (hal_do SENS_CLOSE (cleanup_resources priv1))
                      else priv1)
         in (ret, priv2)))"

section \<open>Operations on the streams\<close>

text \<open>
  The manager and the argument structures are values here, so the tests for a null
  \<open>vmng\<close> or a null argument pointer at the head of each operation have no
  counterpart. Each operation returns its result code with the manager as it leaves
  it.
\<close>

record v4l2_requestbuffers =
  rb_count :: "32 word"
  rb_type :: v4l2_buf_type
  rb_mode :: v4l2_buf_mode

definition video_reqbufs :: "video_mng_t \<Rightarrow> v4l2_requestbuffers \<Rightarrow> int \<times> video_mng_t" where
  "video_reqbufs vmng reqbufs =
     (case get_video_type_inf vmng (ucast (rb_type reqbufs)) of
        None \<Rightarrow> (- EINVAL, vmng)
      | Some type_inf \<Rightarrow>
          (if state type_inf = VIDEO_STATE_DMA then (- EPERM, vmng)
           else
             (case video_framebuff_realloc_container
                     (video_framebuff_change_mode (bufinf type_inf) (rb_mode reqbufs))
                     (unat (rb_count reqbufs)) of
                (ret, fbuf) \<Rightarrow>
                  (ret, put_video_type_inf vmng (ucast (rb_type reqbufs))
                          (type_inf\<lparr>bufinf := fbuf\<rparr>)))))"

definition video_streamon :: "video_mng_t \<Rightarrow> v4l2_buf_type \<Rightarrow> int \<times> video_mng_t" where
  "video_streamon vmng type =
     (case get_video_type_inf vmng (ucast type) of
        None \<Rightarrow> (- EINVAL, vmng)
      | Some type_inf \<Rightarrow>
          (if type \<noteq> V4L2_BUF_TYPE_VIDEO_CAPTURE then (OK, vmng)
           else if state type_inf \<noteq> VIDEO_STATE_STREAMOFF then (- EPERM, vmng)
           else (OK, change_video_state vmng
                       (estimate_next_video_state vmng CAUSE_VIDEO_START))))"

definition video_streamoff :: "video_mng_t \<Rightarrow> v4l2_buf_type \<Rightarrow> int \<times> video_mng_t" where
  "video_streamoff vmng type =
     (case get_video_type_inf vmng (ucast type) of
        None \<Rightarrow> (- EINVAL, vmng)
      | Some type_inf \<Rightarrow>
          (if type \<noteq> V4L2_BUF_TYPE_VIDEO_CAPTURE then (OK, vmng)
           else if state type_inf = VIDEO_STATE_STREAMOFF then (- EPERM, vmng)
           else (OK, change_video_state vmng
                       (estimate_next_video_state vmng CAUSE_VIDEO_STOP))))"

definition video_takepict_start :: "video_mng_t \<Rightarrow> 32 word \<Rightarrow> int \<times> video_mng_t" where
  "video_takepict_start vmng capture_num =
     (if state (still_inf vmng) \<noteq> VIDEO_STATE_STREAMOFF then (- EPERM, vmng)
      else
        (let vmng1 = vmng\<lparr>still_inf := (still_inf vmng)
                       \<lparr>remaining_capnum :=
                          (if 0 <s capture_num then capture_num
                           else VIDEO_REMAINING_CAPNUM_INFINITY)\<rparr>\<rparr>;
             vmng2 = change_video_state vmng1
                       (estimate_next_video_state vmng1 CAUSE_STILL_START)
         in case video_framebuff_get_dma_container (bufinf (still_inf vmng2)) of
              (Some dma_container, fbuf) \<Rightarrow>
                (OK, set_still_state VIDEO_STATE_DMA
                       (start_dma_for V4L2_BUF_TYPE_STILL_CAPTURE dma_container
                          (vmng2\<lparr>still_inf := (still_inf vmng2)\<lparr>bufinf := fbuf\<rparr>\<rparr>)))
            | (None, fbuf) \<Rightarrow>
                (OK, set_still_state VIDEO_STATE_STREAMON
                       (vmng2\<lparr>still_inf := (still_inf vmng2)\<lparr>bufinf := fbuf\<rparr>\<rparr>))))"

definition video_takepict_stop :: "video_mng_t \<Rightarrow> bool \<Rightarrow> int \<times> video_mng_t" where
  "video_takepict_stop vmng halfpush =
     (if state (still_inf vmng) = VIDEO_STATE_STREAMOFF \<and>
         remaining_capnum (still_inf vmng) = VIDEO_REMAINING_CAPNUM_INFINITY
      then (- EPERM, vmng)
      else
        (let vmng1 = (if state (still_inf vmng) = VIDEO_STATE_DMA
                      then hal_do IMG_CANCEL_DMA vmng else vmng);
             vmng2 = vmng1\<lparr>still_inf := (still_inf vmng1)
                       \<lparr>state := VIDEO_STATE_STREAMOFF,
                        remaining_capnum := VIDEO_REMAINING_CAPNUM_INFINITY\<rparr>\<rparr>
         in (OK, change_video_state vmng2
                   (estimate_next_video_state vmng2 CAUSE_STILL_STOP))))"

section \<open>The DMA-done notification\<close>

text \<open>
  The callback reads and writes the slot under DMA through \<open>bufinf.vbuf_dma\<close>
  without testing the pointer; with no slot under DMA that is a null dereference.
\<close>

definition is_sem_waited :: "int \<Rightarrow> bool" where
  "is_sem_waited semcount = (semcount < 0)"

definition nxsem_post :: "video_wait_dma_t \<Rightarrow> video_wait_dma_t" where
  "nxsem_post w = w\<lparr>dqbuf_wait_flg := dqbuf_wait_flg w + 1\<rparr>"

definition notify_stamp ::
  "8 word \<Rightarrow> 32 word \<Rightarrow> v4l2_buffer \<Rightarrow> video_type_inf_t \<Rightarrow> video_type_inf_t" where
  "notify_stamp err_code datasize c type_inf =
     (let c1 = (if err_code = 0 then c\<lparr>buf_flags := 0\<rparr>
                else c\<lparr>buf_flags := V4L2_BUF_FLAG_ERROR\<rparr>);
          rem = (if err_code = 0 \<and> 0 <s remaining_capnum type_inf
                 then remaining_capnum type_inf - 1
                 else remaining_capnum type_inf);
          c2 = c1\<lparr>bytesused := datasize\<rparr>
      in type_inf\<lparr>remaining_capnum := rem,
                   bufinf := video_framebuff_dma_done
                               ((bufinf type_inf)\<lparr>vbuf_dma := Some c2\<rparr>)\<rparr>)"

definition notify_wake :: "video_type_inf_t \<Rightarrow> video_type_inf_t" where
  "notify_wake type_inf =
     (if is_sem_waited (dqbuf_wait_flg (wait_dma type_inf)) then
        (case video_framebuff_pop_curr_container (bufinf type_inf) of
           (c, fbuf) \<Rightarrow>
             type_inf\<lparr>bufinf := fbuf,
                       wait_dma := nxsem_post ((wait_dma type_inf)
                         \<lparr>done_container := c,
                          waitend_cause := VIDEO_WAITEND_CAUSE_DMADONE\<rparr>)\<rparr>)
      else type_inf)"

definition notify_still_stop :: "v4l2_buf_type \<Rightarrow> video_mng_t \<Rightarrow> video_mng_t" where
  "notify_still_stop buf_type vmng =
     (if buf_type = V4L2_BUF_TYPE_STILL_CAPTURE \<and>
         is_sem_waited (dqbuf_wait_flg (wait_dma (video_inf vmng)))
      then vmng\<lparr>video_inf := (video_inf vmng)
               \<lparr>wait_dma := nxsem_post ((wait_dma (video_inf vmng))
                  \<lparr>waitend_cause := VIDEO_WAITEND_CAUSE_STILLSTOP\<rparr>)\<rparr>\<rparr>
      else vmng)"

definition notify_next :: "v4l2_buf_type \<Rightarrow> video_type_inf_t \<Rightarrow> video_mng_t \<Rightarrow> video_mng_t" where
  "notify_next buf_type type_inf vmng =
     (if remaining_capnum type_inf = 0 then
        notify_still_stop buf_type
          (put_video_type_inf (hal_do IMG_CANCEL_DMA vmng) (ucast buf_type)
             (type_inf\<lparr>state := VIDEO_STATE_STREAMOFF\<rparr>))
      else
        (case video_framebuff_get_dma_container (bufinf type_inf) of
           (None, fbuf) \<Rightarrow>
             put_video_type_inf (hal_do IMG_CANCEL_DMA vmng) (ucast buf_type)
               (type_inf\<lparr>bufinf := fbuf, state := VIDEO_STATE_STREAMON\<rparr>)
         | (Some container, fbuf) \<Rightarrow>
             put_video_type_inf
               (hal_do (IMG_SET_DMABUF (userptr container) (buf_length container)) vmng)
               (ucast buf_type) (type_inf\<lparr>bufinf := fbuf\<rparr>)))"

definition video_common_notify_dma_done ::
  "8 word \<Rightarrow> 32 word \<Rightarrow> video_mng_t \<Rightarrow> fault + (int \<times> video_mng_t)" where
  "video_common_notify_dma_done err_code datasize vmng =
     (let buf_type = sens_buftype (hal vmng) in
      case get_video_type_inf vmng (ucast buf_type) of
        None \<Rightarrow> Inr (- EINVAL, vmng)
      | Some type_inf \<Rightarrow>
          (case vbuf_dma (bufinf type_inf) of
             None \<Rightarrow> Inl NULL_DEREFERENCE
           | Some c \<Rightarrow>
               Inr (OK, notify_next buf_type
                          (notify_wake (notify_stamp err_code datasize c type_inf)) vmng)))"

section \<open>Dequeue and its cancellation\<close>

definition nxsem_wait :: "video_wait_dma_t \<Rightarrow> video_wait_dma_t" where
  "nxsem_wait w = w\<lparr>dqbuf_wait_flg := dqbuf_wait_flg w - 1\<rparr>"

text \<open>
  \<open>video_dqbuf\<close> either returns, with its result code, the manager and the caller's
  buffer structure as it leaves them, or it is blocked in \<open>nxsem_wait\<close>; a null
  \<open>container\<close> that reaches the final \<open>memcpy\<close> is a fault.
\<close>

datatype dqbuf_result =
  DQBUF_BLOCKED video_mng_t
| DQBUF_RETURN int video_mng_t v4l2_buffer
| DQBUF_FAULT fault

text \<open>
  One pass through the body of the \<open>do ... while\<close> loop: for the video type the
  Arbiter is consulted with VIDEO_DQBUF and the state changed, then the caller waits
  on the stream's semaphore.
\<close>

definition dqbuf_wait :: "video_mng_t \<Rightarrow> v4l2_buf_type \<Rightarrow> video_mng_t" where
  "dqbuf_wait vmng type =
     (let vmng1 = (if type = V4L2_BUF_TYPE_VIDEO_CAPTURE
                   then change_video_state vmng
                          (estimate_next_video_state vmng CAUSE_VIDEO_DQBUF)
                   else vmng)
      in case get_video_type_inf vmng1 (ucast type) of
           None \<Rightarrow> vmng1
         | Some type_inf \<Rightarrow>
             put_video_type_inf vmng1 (ucast type)
               (type_inf\<lparr>wait_dma := nxsem_wait (wait_dma type_inf)\<rparr>))"

definition dqbuf_sem_count :: "video_mng_t \<Rightarrow> v4l2_buf_type \<Rightarrow> int" where
  "dqbuf_sem_count vmng type =
     (case get_video_type_inf vmng (ucast type) of
        None \<Rightarrow> 0
      | Some type_inf \<Rightarrow> dqbuf_wait_flg (wait_dma type_inf))"

text \<open>The code after the loop: the container the waker left, or the cancellation.\<close>

definition dqbuf_finish ::
  "video_mng_t \<Rightarrow> video_type_inf_t \<Rightarrow> v4l2_buffer \<Rightarrow> dqbuf_result" where
  "dqbuf_finish vmng type_inf buf =
     (case done_container (wait_dma type_inf) of
        None \<Rightarrow>
          if waitend_cause (wait_dma type_inf) = VIDEO_WAITEND_CAUSE_DQCANCEL
          then DQBUF_RETURN (- ECANCELED) vmng buf
          else DQBUF_FAULT NULL_DEREFERENCE
      | Some container \<Rightarrow>
          DQBUF_RETURN OK
            (put_video_type_inf vmng (ucast (btype buf))
               (type_inf\<lparr>wait_dma := (wait_dma type_inf)\<lparr>done_container := None\<rparr>,
                         bufinf := video_framebuff_free_container (bufinf type_inf)\<rparr>))
            container)"

text \<open>
  \<open>video_dqbuf\<close> from the point where \<open>nxsem_wait\<close> returns: the loop condition,
  another pass and another wait while the wake cause is STILLSTOP, the rest of the
  function otherwise. A wait on a count that stays non-negative returns at once. The
  function waits only for a type that names a stream; for any other type it has
  returned -EINVAL at its head, which the first arm repeats.
\<close>

function video_dqbuf_resume :: "video_mng_t \<Rightarrow> v4l2_buffer \<Rightarrow> dqbuf_result" where
  "video_dqbuf_resume vmng buf =
     (case get_video_type_inf vmng (ucast (btype buf)) of
        None \<Rightarrow> DQBUF_RETURN (- EINVAL) vmng buf
      | Some type_inf \<Rightarrow>
          if waitend_cause (wait_dma type_inf) = VIDEO_WAITEND_CAUSE_STILLSTOP then
            (if is_sem_waited (dqbuf_sem_count (dqbuf_wait vmng (btype buf)) (btype buf))
             then DQBUF_BLOCKED (dqbuf_wait vmng (btype buf))
             else video_dqbuf_resume (dqbuf_wait vmng (btype buf)) buf)
          else dqbuf_finish vmng type_inf buf)"
  by pat_completeness auto
termination
  by (relation "measure (\<lambda>(vmng, buf). nat (dqbuf_sem_count vmng (btype buf)))")
     (auto simp add: dqbuf_sem_count_def dqbuf_wait_def get_video_type_inf_def
        put_video_type_inf_def nxsem_wait_def is_sem_waited_def change_video_state_def
        set_video_state_def start_dma_for_def set_buftype_def hal_do_def Let_def
        V4L2_BUF_TYPE_VIDEO_CAPTURE_def V4L2_BUF_TYPE_STILL_CAPTURE_def
        split: if_splits option.splits prod.splits)

declare video_dqbuf_resume.simps [simp del]

definition video_dqbuf :: "video_mng_t \<Rightarrow> v4l2_buffer \<Rightarrow> dqbuf_result" where
  "video_dqbuf vmng buf =
     (case get_video_type_inf vmng (ucast (btype buf)) of
        None \<Rightarrow> DQBUF_RETURN (- EINVAL) vmng buf
      | Some type_inf \<Rightarrow>
          (case video_framebuff_dq_valid_container (bufinf type_inf) of
             (Some container, fbuf) \<Rightarrow>
               DQBUF_RETURN OK
                 (put_video_type_inf vmng (ucast (btype buf))
                    (type_inf\<lparr>bufinf := video_framebuff_free_container fbuf\<rparr>))
                 container
           | (None, fbuf) \<Rightarrow>
               (let vmng1 = dqbuf_wait
                              (put_video_type_inf vmng (ucast (btype buf))
                                 (type_inf\<lparr>bufinf := fbuf\<rparr>))
                              (btype buf)
                in if is_sem_waited (dqbuf_sem_count vmng1 (btype buf))
                   then DQBUF_BLOCKED vmng1
                   else video_dqbuf_resume vmng1 buf)))"




section \<open>Frame size enumeration\<close>

text \<open>
  \<open>gcd\<close> and \<open>lcm\<close> of the source work on \<open>uint16_t\<close>. \<open>a % b\<close> and
  \<open>a / gcd(a,b)\<close> trap for a zero divisor. The product in \<open>lcm\<close> is formed after
  integer promotion and stored back into 16 bits, which keeps its low 16 bits: the
  product of the words. (A product above \<open>INT_MAX\<close>, which needs both factors
  above 32767, overflows the promoted \<open>int\<close>; the model takes the two's complement
  result there as well.)
\<close>

function gcd_u16 :: "16 word \<Rightarrow> 16 word \<Rightarrow> fault + 16 word" where
  "gcd_u16 a b =
     (if b = 0 then Inl DIVIDE_BY_ZERO
      else (let r = a mod b in if r \<noteq> 0 then gcd_u16 b r else Inr b))"
  by pat_completeness auto
termination
  by (relation "measure (\<lambda>(a, b). unat b)")
     (auto simp: unat_mod_distrib unat_gt_0)

declare gcd_u16.simps [simp del]

definition lcm_u16 :: "16 word \<Rightarrow> 16 word \<Rightarrow> fault + 16 word" where
  "lcm_u16 a b =
     (if b \<noteq> 0 then
        (case gcd_u16 a b of
           Inl f \<Rightarrow> Inl f
         | Inr g \<Rightarrow> if g = 0 then Inl DIVIDE_BY_ZERO else Inr ((a div g) * b))
      else Inr 0)"

definition MIN_u16 :: "16 word \<Rightarrow> 16 word \<Rightarrow> 16 word" where
  "MIN_u16 a b = (if a < b then a else b)"

definition MAX_u16 :: "16 word \<Rightarrow> 16 word \<Rightarrow> 16 word" where
  "MAX_u16 a b = (if a > b then a else b)"

text \<open>
  The frame size descriptor. \<open>V4L2_FRMSIZE_TYPE_NONE\<close> stands for the zero a
  descriptor initialised with \<open>{0}\<close> holds. The C unions of a discrete and a
  stepwise view are two fields each; the code writes one view and sets the type tag
  that says which.
\<close>

datatype v4l2_frmsizetypes =
  V4L2_FRMSIZE_TYPE_NONE
| V4L2_FRMSIZE_TYPE_DISCRETE
| V4L2_FRMSIZE_TYPE_CONTINUOUS
| V4L2_FRMSIZE_TYPE_STEPWISE

record v4l2_frmsize_discrete =
  width :: "16 word"
  height :: "16 word"

record v4l2_frmsize_stepwise =
  min_width :: "16 word"
  max_width :: "16 word"
  step_width :: "16 word"
  min_height :: "16 word"
  max_height :: "16 word"
  step_height :: "16 word"

record v4l2_frmsizeenum =
  fs_index :: "32 word"
  fs_buf_type :: v4l2_buf_type
  fs_pixel_format :: "32 word"
  fs_type :: v4l2_frmsizetypes
  fs_discrete :: v4l2_frmsize_discrete
  fs_stepwise :: v4l2_frmsize_stepwise
  fs_subimg_pixel_format :: "32 word"
  fs_subimg_type :: v4l2_frmsizetypes
  fs_subimg_discrete :: v4l2_frmsize_discrete
  fs_subimg_stepwise :: v4l2_frmsize_stepwise

record v4l2_pix_format =
  pix_type :: v4l2_buf_type
  pixelformat :: "32 word"
  subimg_pixelformat :: "32 word"
  pix_width :: "16 word"
  pix_height :: "16 word"
  subimg_width :: "16 word"
  subimg_height :: "16 word"

definition zero_discrete :: v4l2_frmsize_discrete where
  "zero_discrete = \<lparr>width = 0, height = 0\<rparr>"

definition zero_stepwise :: v4l2_frmsize_stepwise where
  "zero_stepwise =
     \<lparr>min_width = 0, max_width = 0, step_width = 0,
      min_height = 0, max_height = 0, step_height = 0\<rparr>"

text \<open>A capability descriptor after \<open>= {0}\<close> and the three assignments from the request.\<close>

definition init_capa :: "v4l2_frmsizeenum \<Rightarrow> v4l2_frmsizeenum" where
  "init_capa frmsize =
     \<lparr>fs_index = 0,
      fs_buf_type = fs_buf_type frmsize,
      fs_pixel_format = fs_pixel_format frmsize,
      fs_type = V4L2_FRMSIZE_TYPE_NONE,
      fs_discrete = zero_discrete,
      fs_stepwise = zero_stepwise,
      fs_subimg_pixel_format = fs_subimg_pixel_format frmsize,
      fs_subimg_type = V4L2_FRMSIZE_TYPE_NONE,
      fs_subimg_discrete = zero_discrete,
      fs_subimg_stepwise = zero_stepwise\<rparr>"

text \<open>
  The entries of the two operation tables the enumeration calls: each takes the
  descriptor it is handed and returns its result code with the descriptor as it left
  it. A null table or a null entry is \<open>None\<close>.
\<close>

record video_sensctrl_ops_s =
  sens_get_range_of_framesize :: "(v4l2_frmsizeenum \<Rightarrow> int \<times> v4l2_frmsizeenum) option"

record video_imgdata_ops_s =
  img_get_range_of_framesize :: "(v4l2_frmsizeenum \<Rightarrow> int \<times> v4l2_frmsizeenum) option"
  img_try_format :: "(v4l2_pix_format \<Rightarrow> int) option"

definition discrete_format :: "v4l2_frmsizeenum \<Rightarrow> v4l2_pix_format" where
  "discrete_format capa_sensctrl =
     \<lparr>pix_type = fs_buf_type capa_sensctrl,
      pixelformat = fs_pixel_format capa_sensctrl,
      subimg_pixelformat = fs_subimg_pixel_format capa_sensctrl,
      pix_width = width (fs_discrete capa_sensctrl),
      pix_height = height (fs_discrete capa_sensctrl),
      subimg_width = width (fs_subimg_discrete capa_sensctrl),
      subimg_height = height (fs_subimg_discrete capa_sensctrl)\<rparr>"

definition return_discrete :: "v4l2_frmsizeenum \<Rightarrow> v4l2_frmsizeenum \<Rightarrow> v4l2_frmsizeenum" where
  "return_discrete capa_sensctrl frmsize =
     frmsize\<lparr>fs_type := V4L2_FRMSIZE_TYPE_DISCRETE,
              fs_discrete := \<lparr>width = width (fs_discrete capa_sensctrl),
                               height = height (fs_discrete capa_sensctrl)\<rparr>,
              fs_subimg_type := V4L2_FRMSIZE_TYPE_DISCRETE,
              fs_subimg_discrete := \<lparr>width = width (fs_subimg_discrete capa_sensctrl),
                                      height = height (fs_subimg_discrete capa_sensctrl)\<rparr>\<rparr>"

definition merge_stepwise ::
  "v4l2_frmsize_stepwise \<Rightarrow> v4l2_frmsize_stepwise \<Rightarrow> fault + v4l2_frmsize_stepwise" where
  "merge_stepwise imgdata sensctrl =
     (case lcm_u16 (step_width imgdata) (step_width sensctrl) of
        Inl f \<Rightarrow> Inl f
      | Inr sw \<Rightarrow>
          (case lcm_u16 (step_height imgdata) (step_height sensctrl) of
             Inl f \<Rightarrow> Inl f
           | Inr sh \<Rightarrow>
               Inr \<lparr>min_width = MAX_u16 (min_width sensctrl) (min_width imgdata),
                    max_width = MIN_u16 (max_width sensctrl) (max_width imgdata),
                    step_width = sw,
                    min_height = MAX_u16 (min_height sensctrl) (min_height imgdata),
                    max_height = MIN_u16 (max_height sensctrl) (max_height imgdata),
                    step_height = sh\<rparr>))"

text \<open>
  The source computes, in this order, the main step width, the sub-image step width,
  the main step height and the sub-image step height; a trap in one of them stops
  the call whichever comes first, so the main and the sub-image merge are taken one
  after the other.
\<close>

definition return_stepwise ::
  "v4l2_frmsizeenum \<Rightarrow> v4l2_frmsizeenum \<Rightarrow> v4l2_frmsizeenum \<Rightarrow> fault + v4l2_frmsizeenum" where
  "return_stepwise capa_imgdata capa_sensctrl frmsize =
     (case merge_stepwise (fs_stepwise capa_imgdata) (fs_stepwise capa_sensctrl) of
        Inl f \<Rightarrow> Inl f
      | Inr sw \<Rightarrow>
          (case merge_stepwise (fs_subimg_stepwise capa_imgdata)
                               (fs_subimg_stepwise capa_sensctrl) of
             Inl f \<Rightarrow> Inl f
           | Inr ssw \<Rightarrow>
               Inr (frmsize\<lparr>fs_stepwise := sw,
                            fs_subimg_stepwise := ssw,
                            fs_type := V4L2_FRMSIZE_TYPE_STEPWISE,
                            fs_subimg_type := V4L2_FRMSIZE_TYPE_STEPWISE\<rparr>)))"

text \<open>
  The \<open>do ... while (1)\<close> loop. Its state is the sensor's descriptor (whose index
  the loop increments), \<open>supported_num\<close>, \<open>ret\<close> and the caller's descriptor;
  \<open>supported_num\<close> is compared with the unsigned 32-bit index of the request. The
  loop ends when the sensor refuses an index, when the requested discrete size is
  reached, or at the first capability that is not discrete. A sensor that never
  refuses need not let it end: no result is \<open>None\<close>.
\<close>

partial_function (option) enum_framesizes_loop ::
  "(v4l2_frmsizeenum \<Rightarrow> int \<times> v4l2_frmsizeenum) \<Rightarrow> (v4l2_pix_format \<Rightarrow> int) option \<Rightarrow>
   v4l2_frmsizeenum \<Rightarrow> v4l2_frmsizeenum \<Rightarrow> 32 word \<Rightarrow> int \<Rightarrow> v4l2_frmsizeenum \<Rightarrow>
   (fault + int \<times> v4l2_frmsizeenum) option" where
  "enum_framesizes_loop sens_range try_format capa_imgdata capa_sensctrl
                        supported_num ret frmsize =
     (case sens_range capa_sensctrl of
        (r, capa) \<Rightarrow>
          if r \<noteq> OK then Some (Inr (ret, frmsize))
          else if fs_type capa = V4L2_FRMSIZE_TYPE_DISCRETE then
            (case try_format of
               None \<Rightarrow> Some (Inl NULL_DEREFERENCE)
             | Some try \<Rightarrow>
                 (let ret1 = try (discrete_format capa) in
                  if ret1 = OK then
                    (if fs_index frmsize = supported_num
                     then Some (Inr (ret1, return_discrete capa frmsize))
                     else enum_framesizes_loop sens_range try_format capa_imgdata
                            (capa\<lparr>fs_index := fs_index capa + 1\<rparr>)
                            (supported_num + 1) ret1 frmsize)
                  else enum_framesizes_loop sens_range try_format capa_imgdata
                         (capa\<lparr>fs_index := fs_index capa + 1\<rparr>)
                         supported_num ret1 frmsize))
          else
            (case return_stepwise capa_imgdata capa frmsize of
               Inl f \<Rightarrow> Some (Inl f)
             | Inr frmsize1 \<Rightarrow> Some (Inr (OK, frmsize1))))"

declare enum_framesizes_loop.simps [code]

text \<open>
  \<open>video_enum_framesizes\<close>: the null checks, the pipeline's range, the loop, and
  the final \<open>return OK\<close>, which does not read \<open>ret\<close>.
\<close>

definition video_enum_framesizes ::
  "video_sensctrl_ops_s option \<Rightarrow> video_imgdata_ops_s option \<Rightarrow> v4l2_frmsizeenum \<Rightarrow>
   (fault + int \<times> v4l2_frmsizeenum) option" where
  "video_enum_framesizes g_video_sensctrl_ops g_video_imgdata_ops frmsize =
     (case (g_video_sensctrl_ops, g_video_imgdata_ops) of
        (Some sens, Some img) \<Rightarrow>
          (case (sens_get_range_of_framesize sens, img_get_range_of_framesize img) of
             (Some sens_range, Some img_range) \<Rightarrow>
               (case img_range (init_capa frmsize) of
                  (ret, capa_imgdata) \<Rightarrow>
                    if ret \<noteq> OK then Some (Inr (ret, frmsize))
                    else
                      (case enum_framesizes_loop sens_range (img_try_format img)
                              capa_imgdata (init_capa frmsize) 0 ret frmsize of
                         None \<Rightarrow> None
                       | Some (Inl f) \<Rightarrow> Some (Inl f)
                       | Some (Inr (ret1, frmsize1)) \<Rightarrow> Some (Inr (OK, frmsize1))))
           | _ \<Rightarrow> Some (Inr (- EINVAL, frmsize)))
      | _ \<Rightarrow> Some (Inr (- EINVAL, frmsize)))"

section \<open>Concrete states and requests\<close>

text \<open>
  States and requests the theorems below are run on. Two video buffers and two still
  buffers, a waiter-free rendezvous, and managers in the situations the operations
  tell apart.
\<close>

definition buf_v0 :: v4l2_buffer where
  "buf_v0 = \<lparr>buf_index = 0, btype = V4L2_BUF_TYPE_VIDEO_CAPTURE, bytesused = 0,
             buf_flags = 0, userptr = 0x1000, buf_length = 0x800\<rparr>"

definition buf_s0 :: v4l2_buffer where
  "buf_s0 = \<lparr>buf_index = 0, btype = V4L2_BUF_TYPE_STILL_CAPTURE, bytesused = 0,
             buf_flags = 0, userptr = 0x4000, buf_length = 0x1000\<rparr>"

definition buf_s1 :: v4l2_buffer where
  "buf_s1 = \<lparr>buf_index = 1, btype = V4L2_BUF_TYPE_STILL_CAPTURE, bytesused = 0,
             buf_flags = 0, userptr = 0x5000, buf_length = 0x1000\<rparr>"

definition no_waiter :: video_wait_dma_t where
  "no_waiter = \<lparr>dqbuf_wait_flg = 0, done_container = None,
                waitend_cause = VIDEO_WAITEND_CAUSE_DMADONE\<rparr>"

definition hal_idle :: hal_t where
  "hal_idle = \<lparr>sens_buftype = V4L2_BUF_TYPE_STILL_CAPTURE, hal_calls = []\<rparr>"

text \<open>Video waiting in STREAMON with nothing queued.\<close>

definition video_on_empty :: video_type_inf_t where
  "video_on_empty =
     \<lparr>state = VIDEO_STATE_STREAMON,
      remaining_capnum = VIDEO_REMAINING_CAPNUM_INFINITY,
      wait_dma = no_waiter,
      bufinf = \<lparr>mode = V4L2_BUF_MODE_FIFO, container_size = 2, vbuf_free = 2,
                vbuf_queued = [], vbuf_dma = None, vbuf_done = []\<rparr>\<rparr>"

text \<open>Video in STREAMON with one buffer queued.\<close>

definition video_on_queued :: video_type_inf_t where
  "video_on_queued =
     \<lparr>state = VIDEO_STATE_STREAMON,
      remaining_capnum = VIDEO_REMAINING_CAPNUM_INFINITY,
      wait_dma = no_waiter,
      bufinf = \<lparr>mode = V4L2_BUF_MODE_FIFO, container_size = 2, vbuf_free = 1,
                vbuf_queued = [buf_v0], vbuf_dma = None, vbuf_done = []\<rparr>\<rparr>"

text \<open>A still capture of two frames under way: one slot under DMA, one queued.\<close>

definition still_in_dma :: video_type_inf_t where
  "still_in_dma =
     \<lparr>state = VIDEO_STATE_DMA,
      remaining_capnum = 2,
      wait_dma = no_waiter,
      bufinf = \<lparr>mode = V4L2_BUF_MODE_FIFO, container_size = 3, vbuf_free = 1,
                vbuf_queued = [buf_s1], vbuf_dma = Some buf_s0, vbuf_done = []\<rparr>\<rparr>"

text \<open>The still stream before take-picture, with one buffer queued, and with none.\<close>

definition still_off_queued :: video_type_inf_t where
  "still_off_queued =
     \<lparr>state = VIDEO_STATE_STREAMOFF,
      remaining_capnum = VIDEO_REMAINING_CAPNUM_INFINITY,
      wait_dma = no_waiter,
      bufinf = \<lparr>mode = V4L2_BUF_MODE_FIFO, container_size = 3, vbuf_free = 2,
                vbuf_queued = [buf_s0], vbuf_dma = None, vbuf_done = []\<rparr>\<rparr>"

definition still_off_empty :: video_type_inf_t where
  "still_off_empty =
     \<lparr>state = VIDEO_STATE_STREAMOFF,
      remaining_capnum = VIDEO_REMAINING_CAPNUM_INFINITY,
      wait_dma = no_waiter,
      bufinf = \<lparr>mode = V4L2_BUF_MODE_FIFO, container_size = 3, vbuf_free = 3,
                vbuf_queued = [], vbuf_dma = None, vbuf_done = []\<rparr>\<rparr>"

text \<open>The still stream started with nothing queued: STREAMON, waiting for a buffer.\<close>

definition still_on_empty :: video_type_inf_t where
  "still_on_empty =
     \<lparr>state = VIDEO_STATE_STREAMON,
      remaining_capnum = 3,
      wait_dma = no_waiter,
      bufinf = \<lparr>mode = V4L2_BUF_MODE_FIFO, container_size = 3, vbuf_free = 3,
                vbuf_queued = [], vbuf_dma = None, vbuf_done = []\<rparr>\<rparr>"

definition vmng_still_dma :: video_mng_t where
  "vmng_still_dma =
     \<lparr>open_num = 1, video_inf = video_on_empty, still_inf = still_in_dma, hal = hal_idle\<rparr>"

definition vmng_still_ready :: video_mng_t where
  "vmng_still_ready =
     \<lparr>open_num = 1, video_inf = video_on_empty, still_inf = still_off_queued,
      hal = hal_idle\<rparr>"

definition vmng_still_unready :: video_mng_t where
  "vmng_still_unready =
     \<lparr>open_num = 1, video_inf = video_on_empty, still_inf = still_off_empty,
      hal = hal_idle\<rparr>"

definition vmng_video_starved :: video_mng_t where
  "vmng_video_starved =
     \<lparr>open_num = 1, video_inf = video_on_empty, still_inf = still_on_empty,
      hal = hal_idle\<rparr>"

definition vmng_video_pending :: video_mng_t where
  "vmng_video_pending =
     \<lparr>open_num = 1, video_inf = video_on_queued, still_inf = still_in_dma,
      hal = hal_idle\<rparr>"

definition reqbufs_still :: v4l2_requestbuffers where
  "reqbufs_still = \<lparr>rb_count = 4, rb_type = V4L2_BUF_TYPE_STILL_CAPTURE,
                    rb_mode = V4L2_BUF_MODE_RING\<rparr>"

definition reqbufs_video :: v4l2_requestbuffers where
  "reqbufs_video = \<lparr>rb_count = 4, rb_type = V4L2_BUF_TYPE_VIDEO_CAPTURE,
                    rb_mode = V4L2_BUF_MODE_RING\<rparr>"

text \<open>
  The video stream before stream-on with one buffer queued, and the manager two calls
  later: stream-on, which starts DMA on that buffer, then stream-off, which cancels it.
\<close>

definition video_off_queued :: video_type_inf_t where
  "video_off_queued =
     \<lparr>state = VIDEO_STATE_STREAMOFF,
      remaining_capnum = VIDEO_REMAINING_CAPNUM_INFINITY,
      wait_dma = no_waiter,
      bufinf = \<lparr>mode = V4L2_BUF_MODE_FIFO, container_size = 2, vbuf_free = 1,
                vbuf_queued = [buf_v0], vbuf_dma = None, vbuf_done = []\<rparr>\<rparr>"

definition vmng_video_ready :: video_mng_t where
  "vmng_video_ready =
     \<lparr>open_num = 1, video_inf = video_off_queued, still_inf = still_off_empty,
      hal = hal_idle\<rparr>"

definition vmng_after_streamoff :: video_mng_t where
  "vmng_after_streamoff =
     snd (video_streamoff
            (snd (video_streamon vmng_video_ready V4L2_BUF_TYPE_VIDEO_CAPTURE))
            V4L2_BUF_TYPE_VIDEO_CAPTURE)"




text \<open>
  Sensors and a pipeline for the frame size enumeration: a sensor with the single
  discrete size 640x480 (sub-image 160x120), a sensor with stepwise sizes whose
  sub-image width steps by 257, and a pipeline that accepts every format and steps
  by 12 and 2 (main image) and by 256 and 4 (sub-image).
\<close>

definition sens_one_discrete :: "v4l2_frmsizeenum \<Rightarrow> int \<times> v4l2_frmsizeenum" where
  "sens_one_discrete capa =
     (if fs_index capa = 0
      then (OK, capa\<lparr>fs_type := V4L2_FRMSIZE_TYPE_DISCRETE,
                      fs_discrete := \<lparr>width = 640, height = 480\<rparr>,
                      fs_subimg_type := V4L2_FRMSIZE_TYPE_DISCRETE,
                      fs_subimg_discrete := \<lparr>width = 160, height = 120\<rparr>\<rparr>)
      else (- EINVAL, capa))"

definition sens_stepwise_257 :: "v4l2_frmsizeenum \<Rightarrow> int \<times> v4l2_frmsizeenum" where
  "sens_stepwise_257 capa =
     (OK, capa\<lparr>fs_type := V4L2_FRMSIZE_TYPE_STEPWISE,
               fs_stepwise := \<lparr>min_width = 96, max_width = 2608, step_width = 8,
                                min_height = 64, max_height = 1960, step_height = 8\<rparr>,
               fs_subimg_type := V4L2_FRMSIZE_TYPE_STEPWISE,
               fs_subimg_stepwise := \<lparr>min_width = 96, max_width = 640, step_width = 257,
                                       min_height = 64, max_height = 480, step_height = 8\<rparr>\<rparr>)"

definition img_range_example :: "v4l2_frmsizeenum \<Rightarrow> int \<times> v4l2_frmsizeenum" where
  "img_range_example capa =
     (OK, capa\<lparr>fs_type := V4L2_FRMSIZE_TYPE_STEPWISE,
               fs_stepwise := \<lparr>min_width = 48, max_width = 4096, step_width = 12,
                                min_height = 96, max_height = 1944, step_height = 2\<rparr>,
               fs_subimg_type := V4L2_FRMSIZE_TYPE_STEPWISE,
               fs_subimg_stepwise := \<lparr>min_width = 48, max_width = 768, step_width = 256,
                                       min_height = 96, max_height = 360, step_height = 4\<rparr>\<rparr>)"

definition img_try_any :: "v4l2_pix_format \<Rightarrow> int" where
  "img_try_any format = OK"

definition imgdata_ops_example :: video_imgdata_ops_s where
  "imgdata_ops_example =
     \<lparr>img_get_range_of_framesize = Some img_range_example,
      img_try_format = Some img_try_any\<rparr>"

definition frmsize_request :: "32 word \<Rightarrow> v4l2_frmsizeenum" where
  "frmsize_request i =
     \<lparr>fs_index = i,
      fs_buf_type = V4L2_BUF_TYPE_VIDEO_CAPTURE,
      fs_pixel_format = 0x56595559,
      fs_type = V4L2_FRMSIZE_TYPE_NONE,
      fs_discrete = zero_discrete,
      fs_stepwise = zero_stepwise,
      fs_subimg_pixel_format = 0x56595559,
      fs_subimg_type = V4L2_FRMSIZE_TYPE_NONE,
      fs_subimg_discrete = zero_discrete,
      fs_subimg_stepwise = zero_stepwise\<rparr>"

definition sensctrl_ops_discrete :: video_sensctrl_ops_s where
  "sensctrl_ops_discrete = \<lparr>sens_get_range_of_framesize = Some sens_one_discrete\<rparr>"

definition sensctrl_ops_step257 :: video_sensctrl_ops_s where
  "sensctrl_ops_step257 = \<lparr>sens_get_range_of_framesize = Some sens_stepwise_257\<rparr>"

text \<open>What the enumeration hands back for the sensor stepping by 257.\<close>

definition frmsize_step257_result :: v4l2_frmsizeenum where
  "frmsize_step257_result =
     (frmsize_request 0)
       \<lparr>fs_type := V4L2_FRMSIZE_TYPE_STEPWISE,
        fs_stepwise := \<lparr>min_width = 96, max_width = 2608, step_width = 24,
                         min_height = 96, max_height = 1944, step_height = 8\<rparr>,
        fs_subimg_type := V4L2_FRMSIZE_TYPE_STEPWISE,
        fs_subimg_stepwise := \<lparr>min_width = 96, max_width = 640, step_width = 256,
                                min_height = 96, max_height = 360, step_height = 8\<rparr>\<rparr>"

section \<open>Helper lemmas\<close>

lemmas buf_type_defs = V4L2_BUF_TYPE_VIDEO_CAPTURE_def V4L2_BUF_TYPE_STILL_CAPTURE_def

lemma get_dma_container_cases:
  "video_framebuff_get_dma_container fbuf =
     (case vbuf_queued fbuf of
        [] \<Rightarrow> (None, fbuf)
      | c # cs \<Rightarrow> (Some c, fbuf\<lparr>vbuf_queued := cs, vbuf_dma := Some c\<rparr>))"
  by (simp add: video_framebuff_get_dma_container_def)

lemma still_inf_change_video_state [simp]:
  "still_inf (change_video_state vmng s) = still_inf vmng"
  by (simp add: change_video_state_def set_video_state_def start_dma_for_def set_buftype_def
        hal_do_def Let_def split: prod.splits option.splits)

lemmas hal_defs = hal_do_def set_buftype_def start_dma_for_def

lemma change_video_state_still_stop:
  "change_video_state vmng (estimate_next_video_state vmng CAUSE_STILL_STOP) =
     (if state (video_inf vmng) = VIDEO_STATE_STREAMON then
        (case vbuf_queued (bufinf (video_inf vmng)) of
           [] \<Rightarrow> vmng
         | c # cs \<Rightarrow>
             set_video_state VIDEO_STATE_DMA
               (start_dma_for V4L2_BUF_TYPE_VIDEO_CAPTURE c
                  (vmng\<lparr>video_inf := (video_inf vmng)
                     \<lparr>bufinf := (bufinf (video_inf vmng))\<lparr>vbuf_queued := cs, vbuf_dma := Some c\<rparr>\<rparr>\<rparr>)))
      else vmng)"
  by (cases "state (video_inf vmng)")
     (simp_all add: change_video_state_def set_video_state_def get_dma_container_cases
        split: list.splits)

lemma remaining_notify_wake [simp]:
  "remaining_capnum (notify_wake ti) = remaining_capnum ti"
  by (simp add: notify_wake_def split: prod.splits)

lemma remaining_notify_stamp [simp]:
  "remaining_capnum (notify_stamp e d c ti) =
     (if e = 0 \<and> 0 <s remaining_capnum ti then remaining_capnum ti - 1
      else remaining_capnum ti)"
  by (simp add: notify_stamp_def Let_def)

lemma get_put_type_inf:
  "get_video_type_inf vmng t = Some ti0 \<Longrightarrow>
   get_video_type_inf (put_video_type_inf vmng' t ti) t = Some ti"
  by (auto simp add: get_video_type_inf_def put_video_type_inf_def split: if_splits)


lemma get_hal_do [simp]:
  "get_video_type_inf (hal_do c vmng) t = get_video_type_inf vmng t"
  by (simp add: get_video_type_inf_def hal_do_def)

lemma get_notify_still_stop:
  "get_video_type_inf (notify_still_stop bt vmng) (ucast bt) =
   get_video_type_inf vmng (ucast bt)"
  by (simp add: notify_still_stop_def get_video_type_inf_def buf_type_defs)

lemma get_notify_next:
  assumes "get_video_type_inf vmng (ucast bt) = Some ti0"
  shows "\<exists>ti'. get_video_type_inf (notify_next bt ti vmng) (ucast bt) = Some ti' \<and>
              remaining_capnum ti' = remaining_capnum ti \<and>
              wait_dma ti' = wait_dma ti"
proof -
  have g: "get_video_type_inf (hal_do c vmng) (ucast bt) = Some ti0" for c
    using assms by simp
  show ?thesis
  proof (cases "remaining_capnum ti = 0")
    case True
    then show ?thesis
      by (simp add: notify_next_def get_notify_still_stop get_put_type_inf [OF g])
  next
    case False
    then show ?thesis
      by (simp add: notify_next_def get_dma_container_cases get_put_type_inf [OF g]
            split: list.splits)
  qed
qed


lemma wait_dma_notify_stamp [simp]:
  "wait_dma (notify_stamp e d c ti) = wait_dma ti"
  by (simp add: notify_stamp_def Let_def)


lemma gcd_u16_eq:
  "b \<noteq> 0 \<Longrightarrow> gcd_u16 a b = Inr (word_of_nat (gcd (unat a) (unat b)))"
proof (induction a b rule: gcd_u16.induct)
  case (1 a b)
  show ?case
  proof (cases "a mod b = 0")
    case True
    then have "unat a mod unat b = 0"
      by (metis unat_mod_distrib unat_0)
    then have "gcd (unat a) (unat b) = unat b"
      by (metis gcd.commute gcd_red_nat gcd_0_nat)
    with True "1.prems" show ?thesis
      by (subst gcd_u16.simps) simp
  next
    case False
    then have ih: "gcd_u16 b (a mod b) = Inr (word_of_nat (gcd (unat b) (unat (a mod b))))"
      using "1.IH" "1.prems" by simp
    have "gcd (unat b) (unat (a mod b)) = gcd (unat a) (unat b)"
      by (simp add: unat_mod_distrib gcd.commute gcd_red_nat[symmetric])
    with False ih "1.prems" show ?thesis
      by (subst gcd_u16.simps) simp
  qed
qed

lemma unat_gcd_word:
  assumes "b \<noteq> (0::16 word)"
  shows "unat (word_of_nat (gcd (unat a) (unat b)) :: 16 word) = gcd (unat a) (unat b)"
proof -
  have "0 < unat b" using assms by (simp add: unat_gt_0)
  then have "gcd (unat a) (unat b) \<le> unat b" by (simp add: gcd_le2_nat)
  moreover have "unat b < 2 ^ 16" using unsigned_less [of b] by simp
  ultimately have "gcd (unat a) (unat b) < 2 ^ LENGTH(16)" by simp
  then show ?thesis by (simp add: unsigned_of_nat take_bit_nat_eq_self)
qed

lemma lcm_u16_eq:
  "lcm_u16 a b = Inr (word_of_nat (lcm (unat a) (unat b)))"
proof (cases "b = 0")
  case True
  then show ?thesis by (simp add: lcm_u16_def)
next
  case False
  define g :: "16 word" where "g = word_of_nat (gcd (unat a) (unat b))"
  have ug: "unat g = gcd (unat a) (unat b)"
    unfolding g_def using False by (rule unat_gcd_word)
  have "0 < unat b" using False by (simp add: unat_gt_0)
  then have gpos: "0 < unat g" using ug by simp
  then have gnz: "g \<noteq> 0" by (simp add: unat_gt_0)
  have dv: "unat g dvd unat a" using ug by simp
  have "unat a div unat g * unat b = lcm (unat a) (unat b)"
    using dv ug by (simp add: lcm_nat_def div_mult_swap mult.commute dvd_div_mult)
  then have "(a div g) * b = word_of_nat (lcm (unat a) (unat b))"
    by (simp add: word_arith_nat_mult [of "a div g" b] unat_div_distrib)
  with False gnz show ?thesis
    by (simp add: lcm_u16_def gcd_u16_eq g_def)
qed

lemma gcd_257_256: "gcd (257::nat) 256 = 1"
  by (simp add: gcd_non_0_nat)

lemma lcm_257_256: "lcm (257::nat) 256 = 65792"
  by (simp add: lcm_nat_def gcd_257_256)

section \<open>The Arbiter\<close>

text \<open>
  C1. \<open>estimate_next_video_state\<close> depends on the manager only through the video
  stream's state and the still stream's state, and for every pair of states and every
  cause it returns the value of the specification's table: VIDEO_STOP gives
  STREAMOFF; VIDEO_START gives STREAMON when the still stream is in STREAMON or DMA and
  DMA otherwise; STILL_START turns DMA into STREAMON and keeps any other state;
  STILL_STOP turns STREAMON into DMA and keeps any other state; VIDEO_DQBUF turns
  STREAMON into DMA when the still stream is in neither STREAMON nor DMA and keeps the
  state otherwise.
\<close>

theorem estimate_next_video_state_table:
  "estimate_next_video_state vmng cause =
     spec_next_video_state (state (video_inf vmng)) (state (still_inf vmng)) cause"
  by (cases cause; cases "state (video_inf vmng)")
     (simp_all add: is_taking_still_picture_def spec_still_capturing_def)

section \<open>The DMA-done notification and the capture counter\<close>

text \<open>
  C2, as the code has it. For a notification that resolves to a stream with a slot
  under DMA, \<open>video_common_notify_dma_done\<close> returns OK and decrements that
  stream's \<open>remaining_capnum\<close> by exactly one when the error code is zero and the
  counter is greater than zero; with a non-zero error code, or a counter that is not
  positive, the counter is left as it was.
\<close>

theorem notify_dma_done_remaining:
  assumes "get_video_type_inf vmng (ucast (sens_buftype (hal vmng))) = Some type_inf"
      and "vbuf_dma (bufinf type_inf) = Some c"
  shows "\<exists>vmng' type_inf'.
           video_common_notify_dma_done err_code datasize vmng = Inr (OK, vmng') \<and>
           get_video_type_inf vmng' (ucast (sens_buftype (hal vmng))) = Some type_inf' \<and>
           remaining_capnum type_inf' =
             (if err_code = 0 \<and> 0 <s remaining_capnum type_inf
              then remaining_capnum type_inf - 1
              else remaining_capnum type_inf)"
proof -
  let ?t = "sens_buftype (hal vmng)"
  let ?ti = "notify_wake (notify_stamp err_code datasize c type_inf)"
  from get_notify_next [OF assms(1), of ?ti]
  obtain ti' where "get_video_type_inf (notify_next ?t ?ti vmng) (ucast ?t) = Some ti'"
    and "remaining_capnum ti' = remaining_capnum ?ti" by blast
  with assms show ?thesis
    by (simp add: video_common_notify_dma_done_def)
qed

theorem notify_dma_done_remaining_witness:
  "\<exists>vmng'. video_common_notify_dma_done 0 4096 vmng_still_dma = Inr (OK, vmng') \<and>
          remaining_capnum (still_inf vmng') = 1"
  using notify_dma_done_remaining [of vmng_still_dma still_in_dma buf_s0 0 4096]
  by (simp add: vmng_still_dma_def hal_idle_def still_in_dma_def word_sless_alt
        get_video_type_inf_def buf_type_defs)

text \<open>
  C2 as stated fails: a notification with error code 1 for the still stream, whose
  counter is 2, returns OK and leaves the counter at 2.
\<close>

theorem notify_dma_done_error_counterexample:
  "get_video_type_inf vmng_still_dma (ucast (sens_buftype (hal vmng_still_dma))) =
     Some (still_inf vmng_still_dma) \<and>
   0 <s remaining_capnum (still_inf vmng_still_dma) \<and>
   \<not> isl (video_common_notify_dma_done 1 4096 vmng_still_dma) \<and>
   fst (projr (video_common_notify_dma_done 1 4096 vmng_still_dma)) = OK \<and>
   remaining_capnum (still_inf vmng_still_dma) = 2 \<and>
   remaining_capnum
     (still_inf (snd (projr (video_common_notify_dma_done 1 4096 vmng_still_dma)))) = 2 \<and>
   remaining_capnum
     (still_inf (snd (projr (video_common_notify_dma_done 1 4096 vmng_still_dma)))) \<noteq>
   remaining_capnum (still_inf vmng_still_dma) - 1"
  by code_simp

section \<open>Take-picture start and stop\<close>

text \<open>
  C3. \<open>video_takepict_start\<close> returns -EPERM and changes nothing when the still
  stream is not in STREAMOFF. When it is in STREAMOFF the call returns OK, sets the
  still stream's \<open>remaining_capnum\<close> to \<open>capture_num\<close> if that is positive and
  to the infinite sentinel otherwise, and leaves the still stream in DMA if its queue
  held a queued slot and in STREAMON if it held none.
\<close>

theorem video_takepict_start_spec:
  "(state (still_inf vmng) \<noteq> VIDEO_STATE_STREAMOFF \<longrightarrow>
      video_takepict_start vmng n = (- EPERM, vmng)) \<and>
   (state (still_inf vmng) = VIDEO_STATE_STREAMOFF \<longrightarrow>
      fst (video_takepict_start vmng n) = OK \<and>
      remaining_capnum (still_inf (snd (video_takepict_start vmng n))) =
        (if 0 <s n then n else VIDEO_REMAINING_CAPNUM_INFINITY) \<and>
      state (still_inf (snd (video_takepict_start vmng n))) =
        (if vbuf_queued (bufinf (still_inf vmng)) = [] then VIDEO_STATE_STREAMON
         else VIDEO_STATE_DMA))"
  by (simp add: video_takepict_start_def Let_def get_dma_container_cases set_still_state_def
        start_dma_for_def set_buftype_def hal_do_def split: list.splits)

theorem video_takepict_start_spec_witness:
  "video_takepict_start vmng_still_dma 2 = (- EPERM, vmng_still_dma) \<and>
   fst (video_takepict_start vmng_still_ready 2) = OK \<and>
   remaining_capnum (still_inf (snd (video_takepict_start vmng_still_ready 2))) = 2 \<and>
   state (still_inf (snd (video_takepict_start vmng_still_ready 2))) = VIDEO_STATE_DMA \<and>
   remaining_capnum (still_inf (snd (video_takepict_start vmng_still_unready 0))) =
     VIDEO_REMAINING_CAPNUM_INFINITY \<and>
   state (still_inf (snd (video_takepict_start vmng_still_unready 0))) = VIDEO_STATE_STREAMON"
  using video_takepict_start_spec [of vmng_still_dma 2]
        video_takepict_start_spec [of vmng_still_ready 2]
        video_takepict_start_spec [of vmng_still_unready 0]
  by (simp add: vmng_still_dma_def vmng_still_ready_def vmng_still_unready_def
        still_in_dma_def still_off_queued_def still_off_empty_def word_sless_alt)

text \<open>
  C4, as the code has it. \<open>video_takepict_stop\<close> returns -EPERM exactly when the
  still stream is in STREAMOFF with the infinite sentinel, and then changes nothing.
  Otherwise it returns OK, cancels DMA if and only if the still stream was in DMA,
  leaves the still stream in STREAMOFF with the infinite sentinel, and applies the
  Arbiter's STILL_STOP to the video stream: a video stream in STREAMON goes to DMA,
  with DMA started on its head queued buffer, when it has a queued buffer, and stays
  in STREAMON when it has none; a video stream in any other state keeps its state.
\<close>

theorem video_takepict_stop_spec:
  "(fst (video_takepict_stop vmng halfpush) = - EPERM \<longleftrightarrow>
      state (still_inf vmng) = VIDEO_STATE_STREAMOFF \<and>
      remaining_capnum (still_inf vmng) = VIDEO_REMAINING_CAPNUM_INFINITY) \<and>
   (fst (video_takepict_stop vmng halfpush) = - EPERM \<longrightarrow>
      snd (video_takepict_stop vmng halfpush) = vmng) \<and>
   (fst (video_takepict_stop vmng halfpush) \<noteq> - EPERM \<longrightarrow>
      fst (video_takepict_stop vmng halfpush) = OK \<and>
      state (still_inf (snd (video_takepict_stop vmng halfpush))) = VIDEO_STATE_STREAMOFF \<and>
      remaining_capnum (still_inf (snd (video_takepict_stop vmng halfpush))) =
        VIDEO_REMAINING_CAPNUM_INFINITY \<and>
      state (video_inf (snd (video_takepict_stop vmng halfpush))) =
        (if state (video_inf vmng) = VIDEO_STATE_STREAMON
         then (if vbuf_queued (bufinf (video_inf vmng)) = [] then VIDEO_STATE_STREAMON
               else VIDEO_STATE_DMA)
         else state (video_inf vmng)) \<and>
      hal_calls (hal (snd (video_takepict_stop vmng halfpush))) =
        hal_calls (hal vmng) @
        (if state (still_inf vmng) = VIDEO_STATE_DMA then [IMG_CANCEL_DMA] else []) @
        (if state (video_inf vmng) = VIDEO_STATE_STREAMON
         then (case vbuf_queued (bufinf (video_inf vmng)) of
                 [] \<Rightarrow> []
               | c # cs \<Rightarrow>
                   [SENS_SET_BUFTYPE V4L2_BUF_TYPE_VIDEO_CAPTURE,
                    SENS_GET_FORMAT V4L2_BUF_TYPE_VIDEO_CAPTURE,
                    IMG_START_DMA V4L2_BUF_TYPE_VIDEO_CAPTURE (userptr c) (buf_length c)])
         else []))"
  by (simp add: video_takepict_stop_def Let_def change_video_state_still_stop
        set_video_state_def hal_defs EPERM_def OK_def
        del: estimate_next_video_state.simps split: list.splits)

theorem video_takepict_stop_spec_witness:
  "fst (video_takepict_stop vmng_still_ready False) = - EPERM \<and>
   snd (video_takepict_stop vmng_still_ready False) = vmng_still_ready \<and>
   fst (video_takepict_stop vmng_video_pending False) = OK \<and>
   state (still_inf (snd (video_takepict_stop vmng_video_pending False))) =
     VIDEO_STATE_STREAMOFF \<and>
   state (video_inf (snd (video_takepict_stop vmng_video_pending False))) = VIDEO_STATE_DMA \<and>
   hal_calls (hal (snd (video_takepict_stop vmng_video_pending False))) =
     [IMG_CANCEL_DMA, SENS_SET_BUFTYPE V4L2_BUF_TYPE_VIDEO_CAPTURE,
      SENS_GET_FORMAT V4L2_BUF_TYPE_VIDEO_CAPTURE,
      IMG_START_DMA V4L2_BUF_TYPE_VIDEO_CAPTURE 0x1000 0x800]"
  using video_takepict_stop_spec [of vmng_still_ready False]
        video_takepict_stop_spec [of vmng_video_pending False]
  by (simp add: vmng_still_ready_def vmng_video_pending_def still_off_queued_def
        still_in_dma_def video_on_queued_def video_on_empty_def hal_idle_def buf_v0_def
        VIDEO_REMAINING_CAPNUM_INFINITY_def EPERM_def OK_def)

text \<open>
  C4 as stated fails: with the video stream in STREAMON and no video buffer queued,
  stopping the still capture succeeds and the video stream is not in DMA afterwards.
\<close>

theorem video_takepict_stop_no_resume_counterexample:
  "state (video_inf vmng_video_starved) = VIDEO_STATE_STREAMON \<and>
   fst (video_takepict_stop vmng_video_starved False) = OK \<and>
   state (still_inf (snd (video_takepict_stop vmng_video_starved False))) =
     VIDEO_STATE_STREAMOFF \<and>
   state (video_inf (snd (video_takepict_stop vmng_video_starved False))) \<noteq> VIDEO_STATE_DMA"
  by code_simp

section \<open>Frame size enumeration\<close>

text \<open>
  C5 on the code. The sensor reports a stepwise capability whose sub-image width
  steps by 257, the pipeline's sub-image width steps by 256. The least common
  multiple of the two steps is 65792; \<open>lcm\<close> forms it and hands back its low 16
  bits, so the descriptor's sub-image step width is 256, which is not a multiple of
  257. The other merged fields are as the claim says.
\<close>

theorem video_enum_framesizes_lcm_overflow:
  "fs_type (snd (sens_stepwise_257 (init_capa (frmsize_request 0)))) =
     V4L2_FRMSIZE_TYPE_STEPWISE \<and>
   step_width (fs_subimg_stepwise (snd (sens_stepwise_257 (init_capa (frmsize_request 0))))) =
     257 \<and>
   step_width (fs_subimg_stepwise (snd (img_range_example (init_capa (frmsize_request 0))))) =
     256 \<and>
   video_enum_framesizes (Some sensctrl_ops_step257) (Some imgdata_ops_example)
     (frmsize_request 0) = Some (Inr (OK, frmsize_step257_result)) \<and>
   step_width (fs_subimg_stepwise frmsize_step257_result) = 256 \<and>
   lcm (257::nat) 256 = 65792"
  by (simp add: lcm_257_256) code_simp

text \<open>
  C6 on the code. The sensor offers one discrete size, which the pipeline accepts;
  the request asks for index 1, beyond that last pair. The loop ends when the sensor
  refuses index 1, the descriptor is left as it came, and the call returns OK, not
  -EINVAL.
\<close>

theorem video_enum_framesizes_beyond_last_returns_ok:
  "video_enum_framesizes (Some sensctrl_ops_discrete) (Some imgdata_ops_example)
     (frmsize_request 1) = Some (Inr (OK, frmsize_request 1)) \<and>
   OK \<noteq> - EINVAL"
  by code_simp

section \<open>Cancelling a dequeue\<close>



section \<open>Request buffers\<close>

text \<open>
  C8, as the code and the specification's queue have it. For a request that names
  one of the two streams: \<open>video_reqbufs\<close> returns -EPERM and leaves the whole
  manager, the queue's mode and capacity with it, unchanged when the stream is in DMA.
  When the stream is not in DMA it sets the requested mode; if no slot of the queue is
  under DMA it then returns OK and the queue has as many slots as requested, keeps
  the queued and done slots that fit and frees the rest (none are kept for a count of
  zero); if a slot is still under DMA, the resize fails with -EBUSY and the queue
  keeps its capacity and its slots.
\<close>

theorem video_reqbufs_spec:
  assumes "get_video_type_inf vmng (ucast (rb_type reqbufs)) = Some type_inf"
  shows "(state type_inf = VIDEO_STATE_DMA \<longrightarrow>
            video_reqbufs vmng reqbufs = (- EPERM, vmng)) \<and>
         (state type_inf \<noteq> VIDEO_STATE_DMA \<and> vbuf_dma (bufinf type_inf) = None \<longrightarrow>
            video_reqbufs vmng reqbufs =
              (OK, put_video_type_inf vmng (ucast (rb_type reqbufs))
                     (type_inf\<lparr>bufinf :=
                        \<lparr>mode = rb_mode reqbufs,
                         container_size = unat (rb_count reqbufs),
                         vbuf_free =
                           unat (rb_count reqbufs)
                           - length (take (unat (rb_count reqbufs))
                                       (vbuf_queued (bufinf type_inf)))
                           - length (take (unat (rb_count reqbufs)
                                           - length (take (unat (rb_count reqbufs))
                                                       (vbuf_queued (bufinf type_inf))))
                                       (vbuf_done (bufinf type_inf))),
                         vbuf_queued =
                           take (unat (rb_count reqbufs)) (vbuf_queued (bufinf type_inf)),
                         vbuf_dma = None,
                         vbuf_done =
                           take (unat (rb_count reqbufs)
                                 - length (take (unat (rb_count reqbufs))
                                             (vbuf_queued (bufinf type_inf))))
                             (vbuf_done (bufinf type_inf))\<rparr>\<rparr>))) \<and>
         (state type_inf \<noteq> VIDEO_STATE_DMA \<and> vbuf_dma (bufinf type_inf) = Some c \<longrightarrow>
            video_reqbufs vmng reqbufs =
              (- EBUSY, put_video_type_inf vmng (ucast (rb_type reqbufs))
                          (type_inf\<lparr>bufinf := (bufinf type_inf)
                             \<lparr>mode := rb_mode reqbufs\<rparr>\<rparr>)))"
proof (intro conjI impI)
  assume "state type_inf = VIDEO_STATE_DMA"
  with assms show "video_reqbufs vmng reqbufs = (- EPERM, vmng)"
    by (simp add: video_reqbufs_def)
next
  assume idle: "state type_inf \<noteq> VIDEO_STATE_DMA \<and> vbuf_dma (bufinf type_inf) = None"
  have eq: "(bufinf type_inf)
              \<lparr>mode := rb_mode reqbufs,
               container_size := n,
               vbuf_free := f,
               vbuf_queued := q,
               vbuf_done := d\<rparr> =
            \<lparr>mode = rb_mode reqbufs, container_size = n, vbuf_free = f,
             vbuf_queued = q, vbuf_dma = None, vbuf_done = d\<rparr>" for n f q d
    using idle by (cases "bufinf type_inf") simp
  show "video_reqbufs vmng reqbufs =
              (OK, put_video_type_inf vmng (ucast (rb_type reqbufs))
                     (type_inf\<lparr>bufinf :=
                        \<lparr>mode = rb_mode reqbufs,
                         container_size = unat (rb_count reqbufs),
                         vbuf_free =
                           unat (rb_count reqbufs)
                           - length (take (unat (rb_count reqbufs))
                                       (vbuf_queued (bufinf type_inf)))
                           - length (take (unat (rb_count reqbufs)
                                           - length (take (unat (rb_count reqbufs))
                                                       (vbuf_queued (bufinf type_inf))))
                                       (vbuf_done (bufinf type_inf))),
                         vbuf_queued =
                           take (unat (rb_count reqbufs)) (vbuf_queued (bufinf type_inf)),
                         vbuf_dma = None,
                         vbuf_done =
                           take (unat (rb_count reqbufs)
                                 - length (take (unat (rb_count reqbufs))
                                             (vbuf_queued (bufinf type_inf))))
                             (vbuf_done (bufinf type_inf))\<rparr>\<rparr>))"
    using assms idle
    unfolding video_reqbufs_def video_framebuff_realloc_container_def
      video_framebuff_change_mode_def Let_def eq [symmetric]
    by simp
next
  assume busy: "state type_inf \<noteq> VIDEO_STATE_DMA \<and> vbuf_dma (bufinf type_inf) = Some c"
  with assms show "video_reqbufs vmng reqbufs =
              (- EBUSY, put_video_type_inf vmng (ucast (rb_type reqbufs))
                          (type_inf\<lparr>bufinf := (bufinf type_inf)
                             \<lparr>mode := rb_mode reqbufs\<rparr>\<rparr>))"
    by (simp add: video_reqbufs_def video_framebuff_realloc_container_def
          video_framebuff_change_mode_def)
qed

theorem video_reqbufs_spec_witness:
  "video_reqbufs vmng_still_dma reqbufs_still = (- EPERM, vmng_still_dma) \<and>
   fst (video_reqbufs vmng_still_dma reqbufs_video) = OK \<and>
   bufinf (video_inf (snd (video_reqbufs vmng_still_dma reqbufs_video))) =
     \<lparr>mode = V4L2_BUF_MODE_RING, container_size = 4, vbuf_free = 4,
      vbuf_queued = [], vbuf_dma = None, vbuf_done = []\<rparr> \<and>
   fst (video_reqbufs vmng_after_streamoff reqbufs_video) = - EBUSY \<and>
   bufinf (video_inf (snd (video_reqbufs vmng_after_streamoff reqbufs_video))) =
     \<lparr>mode = V4L2_BUF_MODE_RING, container_size = 2, vbuf_free = 1,
      vbuf_queued = [], vbuf_dma = Some buf_v0, vbuf_done = []\<rparr>"
proof -
  have g1: "get_video_type_inf vmng_still_dma (ucast (rb_type reqbufs_still)) =
              Some still_in_dma"
    by (simp add: vmng_still_dma_def reqbufs_still_def get_video_type_inf_def buf_type_defs)
  have g2: "get_video_type_inf vmng_still_dma (ucast (rb_type reqbufs_video)) =
              Some video_on_empty"
    by (simp add: vmng_still_dma_def reqbufs_video_def get_video_type_inf_def buf_type_defs)
  have g3: "get_video_type_inf vmng_after_streamoff (ucast (rb_type reqbufs_video)) =
              Some (video_inf vmng_after_streamoff)"
    by (simp add: reqbufs_video_def get_video_type_inf_def buf_type_defs)
  have v3: "video_inf vmng_after_streamoff =
              \<lparr>state = VIDEO_STATE_STREAMOFF,
               remaining_capnum = VIDEO_REMAINING_CAPNUM_INFINITY,
               wait_dma = no_waiter,
               bufinf = \<lparr>mode = V4L2_BUF_MODE_FIFO, container_size = 2, vbuf_free = 1,
                         vbuf_queued = [], vbuf_dma = Some buf_v0, vbuf_done = []\<rparr>\<rparr>"
    by code_simp
  have put_video: "video_inf (put_video_type_inf vmng (ucast (rb_type reqbufs_video)) ti) = ti"
    for vmng ti
    by (simp add: reqbufs_video_def put_video_type_inf_def buf_type_defs)
  from video_reqbufs_spec [OF g1, where c = buf_s0]
  have A: "video_reqbufs vmng_still_dma reqbufs_still = (- EPERM, vmng_still_dma)"
    by (simp add: still_in_dma_def)
  from video_reqbufs_spec [OF g2, where c = buf_v0]
  have B: "video_reqbufs vmng_still_dma reqbufs_video =
             (OK, put_video_type_inf vmng_still_dma (ucast (rb_type reqbufs_video))
                    (video_on_empty\<lparr>bufinf :=
                       \<lparr>mode = V4L2_BUF_MODE_RING, container_size = 4, vbuf_free = 4,
                        vbuf_queued = [], vbuf_dma = None, vbuf_done = []\<rparr>\<rparr>))"
    by (simp add: video_on_empty_def reqbufs_video_def)
  from video_reqbufs_spec [OF g3, where c = buf_v0]
  have C: "video_reqbufs vmng_after_streamoff reqbufs_video =
             (- EBUSY, put_video_type_inf vmng_after_streamoff (ucast (rb_type reqbufs_video))
                         ((video_inf vmng_after_streamoff)\<lparr>bufinf :=
                            (bufinf (video_inf vmng_after_streamoff))
                              \<lparr>mode := rb_mode reqbufs_video\<rparr>\<rparr>))"
    by (simp add: v3)
  show ?thesis
    unfolding A B C by (simp add: put_video v3) (simp add: reqbufs_video_def)
qed

text \<open>
  C8 as stated fails: the video stream is started with one buffer queued and stopped
  again, which cancels the DMA and leaves the stream in STREAMOFF with that buffer's
  slot still under DMA. A request for four slots in ring mode is then not refused
  with -EPERM, sets the mode, and fails with -EBUSY: the queue keeps its two slots.
\<close>

theorem video_reqbufs_busy_counterexample:
  "fst (video_streamon vmng_video_ready V4L2_BUF_TYPE_VIDEO_CAPTURE) = OK \<and>
   fst (video_streamoff (snd (video_streamon vmng_video_ready V4L2_BUF_TYPE_VIDEO_CAPTURE))
          V4L2_BUF_TYPE_VIDEO_CAPTURE) = OK \<and>
   state (video_inf vmng_after_streamoff) = VIDEO_STATE_STREAMOFF \<and>
   unat (rb_count reqbufs_video) = 4 \<and>
   fst (video_reqbufs vmng_after_streamoff reqbufs_video) = - EBUSY \<and>
   mode (bufinf (video_inf (snd (video_reqbufs vmng_after_streamoff reqbufs_video)))) =
     V4L2_BUF_MODE_RING \<and>
   container_size
     (bufinf (video_inf (snd (video_reqbufs vmng_after_streamoff reqbufs_video)))) = 2"
  by code_simp

section \<open>Close\<close>

text \<open>
  C9 on the code. Closing a manager that is open once, with no DMA under way,
  decrements the open count to zero, cleans up, and returns ERROR, which is not OK.
\<close>

theorem video_close_returns_error:
  "open_num vmng_still_ready = 1 \<and>
   fst (video_close vmng_still_ready) = ERROR \<and>
   open_num (snd (video_close vmng_still_ready)) = 0 \<and>
   ERROR \<noteq> OK"
  by (simp add: video_close_def vmng_still_ready_def Let_def hal_do_def cleanup_resources_def
        ERROR_def OK_def video_on_empty_def still_off_queued_def)

section \<open>Stream on and stream off for the still stream\<close>

text \<open>
  C10. \<open>video_streamon\<close> and \<open>video_streamoff\<close> with the still-capture buffer
  type return OK and hand back the manager as it was: no stream state, queue or
  capture counter changes, and no call reaches the hardware.
\<close>

theorem streamon_streamoff_still_noop:
  "video_streamon vmng V4L2_BUF_TYPE_STILL_CAPTURE = (OK, vmng) \<and>
   video_streamoff vmng V4L2_BUF_TYPE_STILL_CAPTURE = (OK, vmng)"
  by (simp add: video_streamon_def video_streamoff_def get_video_type_inf_def buf_type_defs)

end
